theory Spec2Isabelle
  imports Main "HOL-Library.Word" "HOL-Library.Sublist"
begin

section \<open>JavaScript strings\<close>

text \<open>
  A JavaScript string is a sequence of UTF-16 code units. The em-dash U+2014 that
  \<open>filterEmDashForCommand\<close> rewrites is one code unit, as is every white-space character
  that \<open>trim\<close> and \<open>trimEnd\<close> remove, so the model works on code units throughout.
\<close>

type_synonym jsstring = "16 word list"

text \<open>An ASCII literal of the source, as code units.\<close>

definition js :: "string \<Rightarrow> jsstring" where
  "js s = map of_char s"

definition em_dash :: "16 word" where
  "em_dash = 0x2014"

definition hyphen :: "16 word" where
  "hyphen = 0x2D"

definition space :: "16 word" where
  "space = 0x20"

text \<open>
  The code points \<open>String.prototype.trim\<close> strips: ECMAScript's WhiteSpace (TAB, VT, FF,
  SP, NBSP, ZWNBSP and the category Zs) and LineTerminator (LF, CR, LS, PS).
\<close>

definition isWhiteSpace :: "16 word \<Rightarrow> bool" where
  "isWhiteSpace c =
     (c = 0x09 \<or> c = 0x0A \<or> c = 0x0B \<or> c = 0x0C \<or> c = 0x0D \<or> c = 0x20 \<or> c = 0xA0 \<or>
      c = 0x1680 \<or> (0x2000 \<le> c \<and> c \<le> 0x200A) \<or> c = 0x2028 \<or> c = 0x2029 \<or>
      c = 0x202F \<or> c = 0x205F \<or> c = 0x3000 \<or> c = 0xFEFF)"

definition trimStart :: "jsstring \<Rightarrow> jsstring" where
  "trimStart s = dropWhile isWhiteSpace s"

definition trimEnd :: "jsstring \<Rightarrow> jsstring" where
  "trimEnd s = rev (dropWhile isWhiteSpace (rev s))"

definition trim :: "jsstring \<Rightarrow> jsstring" where
  "trim s = trimEnd (trimStart s)"

text \<open>\<open>s.indexOf(c)\<close> for a one-unit needle: the first position of \<open>c\<close>, or \<open>-1\<close>.\<close>

fun indexOf :: "jsstring \<Rightarrow> 16 word \<Rightarrow> int" where
  "indexOf [] c = - 1"
| "indexOf (x # xs) c =
     (if x = c then 0 else (let i = indexOf xs c in if i < 0 then - 1 else i + 1))"

text \<open>
  \<open>s.substring(a, b)\<close>: both indices are clamped to \<open>[0, length]\<close> and swapped when the
  first exceeds the second.
\<close>

definition substring :: "jsstring \<Rightarrow> int \<Rightarrow> int \<Rightarrow> jsstring" where
  "substring s a b =
     (let len = int (length s);
          a' = max 0 (min a len);
          b' = max 0 (min b len);
          start = min a' b';
          stop = max a' b'
      in take (nat (stop - start)) (drop (nat start) s))"

text \<open>A value of type \<open>string | undefined\<close> in a condition: true when defined and non-empty.\<close>

definition truthy :: "jsstring option \<Rightarrow> bool" where
  "truthy v = (case v of None \<Rightarrow> False | Some s \<Rightarrow> s \<noteq> [])"

text \<open>Every JavaScript object is true in a condition (\<open>ToBoolean\<close>).\<close>

definition truthy_object :: "'a \<Rightarrow> bool" where
  "truthy_object x = True"

section \<open>The command normaliser (\<open>command.ts\<close>, lines 60 to 72 and 134 to 136)\<close>

text \<open>\<open>command.replace(/\u2014/g, '--')\<close>\<close>

definition filterEmDashForCommand :: "jsstring \<Rightarrow> jsstring" where
  "filterEmDashForCommand command =
     concat (map (\<lambda>c. if c = em_dash then [hyphen, hyphen] else [c]) command)"

text \<open>Lines 62 to 65: the position of the first space, or the length when there is none.\<close>

definition commandLength :: "jsstring \<Rightarrow> int" where
  "commandLength msg =
     (let cmdLength = indexOf msg space
      in if cmdLength < 0 then int (length msg) else cmdLength)"

text \<open>
  Line 67: the command token. \<open>String.prototype.toLowerCase\<close> follows the Unicode case
  tables of the JavaScript runtime; it is the parameter \<open>lower\<close>.
\<close>

definition commandToken :: "(jsstring \<Rightarrow> jsstring) \<Rightarrow> jsstring \<Rightarrow> jsstring" where
  "commandToken lower msg = lower (substring msg 0 (commandLength msg))"

text \<open>Lines 69 and 71: \<open>msg.substring(cmdLength, msg.length)\<close>, the argument segment.\<close>

definition argumentSegment :: "jsstring \<Rightarrow> jsstring" where
  "argumentSegment msg = substring msg (commandLength msg) (int (length msg))"

text \<open>Lines 60 to 72 of \<open>executeCommand\<close>.\<close>

definition normalizeMessage :: "(jsstring \<Rightarrow> jsstring) \<Rightarrow> jsstring \<Rightarrow> jsstring" where
  "normalizeMessage lower message =
     (let msg = filterEmDashForCommand message;
          cmd = commandToken lower msg
      in if cmd = js ''/code''
         then cmd @ js '' '' @ trimEnd (argumentSegment msg)
         else cmd @ js '' '' @ trim (argumentSegment msg))"

text \<open>The lower-casing of ASCII text, for the concrete runs below.\<close>

definition ascii_lower :: "jsstring \<Rightarrow> jsstring" where
  "ascii_lower s = map (\<lambda>c. if 0x41 \<le> c \<and> c \<le> 0x5A then c + 0x20 else c) s"


section \<open>Data model\<close>

text \<open>\<open>CommandArgs\<close>: the context sent with every executed command.\<close>

record CommandArgs =
  channel_id :: jsstring
  team_id :: jsstring
  root_id :: "jsstring option"
  parent_id :: "jsstring option"

text \<open>
  \<open>CommandResponse\<close> is opaque to this code but for \<open>trigger_id\<close>; the other fields are
  kept as an association list. The empty object \<open>{}\<close> has neither.
\<close>

record CommandResponse =
  trigger_id :: "jsstring option"
  response_fields :: "(jsstring \<times> jsstring) list"

definition empty_object :: CommandResponse where
  "empty_object = \<lparr>trigger_id = None, response_fields = []\<rparr>"

datatype ClientErrorProps = ClientErrorProps jsstring

datatype Client = Client jsstring

text \<open>
  The three shapes of \<open>error\<close> in a result: a string, an object \<open>{message}\<close> (whose message
  is \<open>undefined\<close> when \<open>errorMessage!\<close> was), and a caught client error.
\<close>

datatype error_value =
    ErrorString jsstring
  | ErrorMessage "jsstring option"
  | ErrorClient ClientErrorProps

datatype js_exception = TypeError

text \<open>
  What an \<open>async\<close> function of this file settles to: \<open>{data}\<close>, \<open>{error}\<close>, or a rejection
  when its body throws.
\<close>

datatype 'a result = Data 'a | Error error_value | Rejected js_exception

subsection \<open>Localisation\<close>

text \<open>
  A message is a sequence of literal text and named arguments, as the message format
  parser of the localisation layer reads \<open>'... Response type: {type}.'\<close>.
\<close>

datatype message_part = Literal jsstring | Argument jsstring

record IntlShape =
  intl_locale :: jsstring
  messages :: "(jsstring \<times> message_part list) list"

fun format_part :: "(jsstring \<times> jsstring) list \<Rightarrow> message_part \<Rightarrow> jsstring" where
  "format_part values (Literal s) = s"
| "format_part values (Argument n) =
     (case map_of values n of Some v \<Rightarrow> v | None \<Rightarrow> js ''{'' @ n @ js ''}'')"

text \<open>
  Modelled from the spec: \<open>intl.formatMessage\<close> of the localisation layer, which is not in
  this file. It formats the catalogue's message for the identifier, or the descriptor's
  \<open>defaultMessage\<close> when the catalogue has none, with the given values.
\<close>

definition formatMessage ::
  "IntlShape \<Rightarrow> jsstring \<Rightarrow> message_part list \<Rightarrow> (jsstring \<times> jsstring) list \<Rightarrow> jsstring" where
  "formatMessage intl ident defaultMessage values =
     (let template = (case map_of (messages intl) ident of
                        Some m \<Rightarrow> m
                      | None \<Rightarrow> defaultMessage)
      in concat (map (format_part values) template))"

subsection \<open>App calls\<close>

datatype AppForm = AppForm jsstring

record AppCallRequest =
  call_path :: jsstring
  call_context :: "(jsstring \<times> jsstring) list"

text \<open>The fields \<open>type\<close>, \<open>text\<close>, \<open>form\<close> and \<open>navigate_to_url\<close> of an \<open>AppCallResponse\<close>.\<close>

record AppCallResponse =
  response_type :: jsstring
  response_text :: "jsstring option"
  response_form :: "AppForm option"
  navigate_to_url :: "jsstring option"

text \<open>The constants \<open>AppCallResponseTypes.OK\<close>, \<open>FORM\<close> and \<open>NAVIGATE\<close> of \<open>@constants/apps\<close>.\<close>

record AppCallResponseTypes =
  OK :: jsstring
  FORM :: jsstring
  NAVIGATE :: jsstring

text \<open>\<open>new AppCommandParser(serverUrl, intl, channelId, teamId, rootId)\<close>\<close>

record AppCommandParser =
  parser_serverUrl :: jsstring
  parser_intl :: IntlShape
  parser_channelID :: jsstring
  parser_teamID :: jsstring
  parser_rootPostID :: "jsstring option"

text \<open>The result \<open>{creq, errorMessage}\<close> of \<open>parser.composeCommandSubmitCall\<close>.\<close>

record ComposeResult =
  creq :: "AppCallRequest option"
  errorMessage :: "jsstring option"

text \<open>The result of \<open>doAppSubmit\<close>, read as \<open>res.error\<close> and \<open>res.data\<close>.\<close>

record SubmitResult =
  submit_data :: "AppCallResponse option"
  submit_error :: "AppCallResponse option"

subsection \<open>Deep links\<close>

text \<open>
  The five kinds the \<open>switch\<close> of \<open>handleGotoLocation\<close> names; \<open>OtherLinkType\<close> is any
  other value of \<open>match.type\<close>, for which the \<open>switch\<close> has no case.
\<close>

datatype DeepLinkType =
  Channel | Permalink | DirectMessage | GroupMessage | Plugin | OtherLinkType

text \<open>
  \<open>match.data\<close>, read through the casts to \<open>DeepLinkChannel\<close>, \<open>DeepLinkPermalink\<close>,
  \<open>DeepLinkDM\<close>, \<open>DeepLinkGM\<close> and \<open>DeepLinkPlugin\<close>: a field the payload lacks is
  \<open>undefined\<close>.
\<close>

record DeepLinkData =
  link_serverUrl :: "jsstring option"
  teamName :: "jsstring option"
  channelName :: "jsstring option"
  postId :: "jsstring option"
  userName :: "jsstring option"
  channelId :: "jsstring option"
  plugin_id :: "jsstring option"

record DeepLinkWithData =
  link_type :: DeepLinkType
  link_data :: "DeepLinkData option"

subsection \<open>Database\<close>

record ChannelModel =
  channel_model_id :: jsstring
  teamId :: jsstring

record UserModel =
  user_id :: jsstring
  username :: jsstring

record ClientConfig =
  SiteURL :: "jsstring option"

text \<open>
  A database handle is a value of the type parameter \<open>'db\<close>. An entry of
  \<open>DatabaseManager.serverDatabases\<close> holds the handle and the operator that wraps it.
\<close>

record 'db ServerDataOperator =
  operator_database :: 'db

record 'db ServerDatabase =
  database :: 'db
  operator :: "'db ServerDataOperator"

subsection \<open>Effects\<close>

text \<open>
  Every call this file makes into the database, the network client, the app subsystem
  and the navigation layer, in the order made. \<open>ClientExecuteCommand\<close> and \<open>DoAppSubmit\<close>
  are the network calls.
\<close>

datatype 'db event =
    GetChannelById 'db jsstring
  | GetCurrentTeamId 'db
  | GetConfig 'db
  | QueryUsersByUsername 'db "jsstring list"
  | GetTeammateNameDisplay 'db
  | ClientExecuteCommand Client jsstring CommandArgs
  | SetTriggerId jsstring jsstring
  | ComposeCommandSubmitCall AppCommandParser jsstring
  | DoAppSubmit jsstring AppCallRequest
  | PostEphemeralCallResponseForCommandArgs jsstring AppCallResponse jsstring CommandArgs
  | ShowAppForm AppForm "(jsstring \<times> jsstring) list"
  | SwitchToChannelByName jsstring "jsstring option" "jsstring option"
  | ShowPermalink jsstring "jsstring option" "jsstring option"
  | ErrorUnkownUser
  | ErrorBadChannel
  | MakeDirectChannel jsstring jsstring jsstring bool
  | SwitchToChannelById jsstring jsstring
  | ShowModal jsstring "jsstring option" jsstring
  | TryOpenURL jsstring

subsection \<open>Collaborators\<close>

text \<open>
  The modules this file imports, as what they answer: the two registries, the database
  queries, the network client (which throws a client error or returns), the app
  subsystem, the deep-link matcher and the runtime's \<open>toLowerCase\<close>.
\<close>

record 'db env =
  serverDatabases :: "jsstring \<Rightarrow> 'db ServerDatabase option"
  searchUrl :: "jsstring \<Rightarrow> jsstring option"
  getClient :: "jsstring \<Rightarrow> ClientErrorProps + Client"
  client_executeCommand ::
    "Client \<Rightarrow> jsstring \<Rightarrow> CommandArgs \<Rightarrow> ClientErrorProps + CommandResponse option"
  hasIntegrationsManager :: "jsstring \<Rightarrow> bool"
  getChannelById :: "'db \<Rightarrow> jsstring \<Rightarrow> ChannelModel option"
  getCurrentTeamId :: "'db \<Rightarrow> jsstring"
  getConfig :: "'db \<Rightarrow> ClientConfig option"
  queryUsersByUsername :: "'db \<Rightarrow> jsstring list \<Rightarrow> UserModel list"
  getTeammateNameDisplay :: "'db \<Rightarrow> jsstring"
  displayUsername :: "UserModel \<Rightarrow> jsstring \<Rightarrow> jsstring \<Rightarrow> jsstring"
  isAppsEnabled :: "jsstring \<Rightarrow> bool"
  isAppCommand :: "AppCommandParser \<Rightarrow> jsstring \<Rightarrow> bool"
  composeCommandSubmitCall :: "AppCommandParser \<Rightarrow> jsstring \<Rightarrow> ComposeResult"
  doAppSubmit :: "jsstring \<Rightarrow> AppCallRequest \<Rightarrow> IntlShape \<Rightarrow> SubmitResult"
  responseTypes :: AppCallResponseTypes
  matchDeepLink :: "jsstring \<Rightarrow> jsstring \<Rightarrow> jsstring option \<Rightarrow> DeepLinkWithData option"
  toLowerCase :: "jsstring \<Rightarrow> jsstring"

section \<open>Deep-link resolution (\<open>handleGotoLocation\<close>, lines 138 to 217)\<close>

text \<open>
  The function returns its result and the calls it made. The navigation calls
  (\<open>switchToChannelByName\<close>, \<open>showPermalink\<close>, \<open>makeDirectChannel\<close>, \<open>switchToChannelById\<close>,
  \<open>showModal\<close>, \<open>tryOpenURL\<close>) are made and not awaited: nothing they return is read.
  \<open>tryOpenURL\<close> is handed the \<open>onError\<close> callback that shows the link-error alert.
\<close>

text \<open>Lines 145 and 146: the match, against the site URL of the server's configuration.\<close>

definition deepLinkMatch ::
  "'db env \<Rightarrow> 'db \<Rightarrow> jsstring \<Rightarrow> jsstring \<Rightarrow> DeepLinkWithData option" where
  "deepLinkMatch e db serverUrl location =
     (let config = getConfig e db
      in matchDeepLink e location serverUrl
           (case config of None \<Rightarrow> None | Some c \<Rightarrow> SiteURL c))"

text \<open>
  Lines 147 to 150: \<open>linkServerUrl\<close> is looked up only when \<open>match?.data?.serverUrl\<close> is
  defined and non-empty.
\<close>

definition resolveLinkServer :: "'db env \<Rightarrow> DeepLinkWithData option \<Rightarrow> jsstring option" where
  "resolveLinkServer e match =
     (case match of
        None \<Rightarrow> None
      | Some m \<Rightarrow>
          (case link_data m of
             None \<Rightarrow> None
           | Some d \<Rightarrow>
               (case link_serverUrl d of
                  None \<Rightarrow> None
                | Some u \<Rightarrow> if u \<noteq> [] then searchUrl e u else None)))"

definition handleGotoLocation ::
  "'db env \<Rightarrow> jsstring \<Rightarrow> IntlShape \<Rightarrow> jsstring \<Rightarrow> bool result \<times> 'db event list" where
  "handleGotoLocation e serverUrl intl location =
     (case serverDatabases e serverUrl of
        None \<Rightarrow> (Error (ErrorString (serverUrl @ js '' database not found'')), [])
      | Some sd \<Rightarrow>
          (let database = operator_database (operator sd);
               match = deepLinkMatch e database serverUrl location;
               linkServerUrl = resolveLinkServer e match;
               t = [GetConfig database];
               fallback = (Data True, t @ [TryOpenURL location])
           in case match of
                None \<Rightarrow> fallback
              | Some m \<Rightarrow>
                  if \<not> truthy linkServerUrl then fallback
                  else
                    (case (linkServerUrl, link_data m) of
                       (Some l, Some d) \<Rightarrow>
                         (case link_type m of
                            Channel \<Rightarrow>
                              (Data True,
                               t @ [SwitchToChannelByName l (channelName d) (teamName d)])
                          | Permalink \<Rightarrow>
                              (Data True, t @ [ShowPermalink l (teamName d) (postId d)])
                          | DirectMessage \<Rightarrow>
                              (case userName d of
                                 None \<Rightarrow> (Data False, t @ [ErrorUnkownUser])
                               | Some name \<Rightarrow>
                                   if name = [] then (Data False, t @ [ErrorUnkownUser])
                                   else if link_serverUrl d \<noteq> Some serverUrl
                                           \<and> \<not> truthy_object database
                                   then (Error (ErrorString
                                           (serverUrl @ js '' database not found'')), t)
                                   else
                                     (case queryUsersByUsername e database [name] of
                                        [] \<Rightarrow>
                                          (Data False,
                                           t @ [QueryUsersByUsername database [name],
                                                ErrorUnkownUser])
                                      | user # others \<Rightarrow>
                                          (Data True,
                                           t @ [QueryUsersByUsername database [name],
                                                GetTeammateNameDisplay database,
                                                MakeDirectChannel l (user_id user)
                                                  (displayUsername e user (intl_locale intl)
                                                     (getTeammateNameDisplay e database))
                                                  True])))
                          | GroupMessage \<Rightarrow>
                              (case channelId d of
                                 None \<Rightarrow> (Data False, t @ [ErrorBadChannel])
                               | Some c \<Rightarrow>
                                   if c = [] then (Data False, t @ [ErrorBadChannel])
                                   else (Data True, t @ [SwitchToChannelById l c]))
                          | Plugin \<Rightarrow>
                              (Data True,
                               t @ [ShowModal (js ''PluginInternal'') (plugin_id d) location])
                          | OtherLinkType \<Rightarrow> (Data True, t))
                     | _ \<Rightarrow> fallback)))"

section \<open>The app pipeline (\<open>executeAppCommand\<close>, lines 88 to 132)\<close>

definition createErrorMessage :: "jsstring option \<Rightarrow> 'a result" where
  "createErrorMessage errMessage = Error (ErrorMessage errMessage)"

text \<open>The descriptor of \<open>apps.error.responses.unknown_type\<close>, lines 125 to 130.\<close>

definition unknown_type_id :: jsstring where
  "unknown_type_id = js ''apps.error.responses.unknown_type''"

definition unknown_type_default :: "message_part list" where
  "unknown_type_default =
     [Literal (js ''App response type not supported. Response type: ''),
      Argument (js ''type''),
      Literal (js ''.'')]"

text \<open>
  \<open>handleGotoLocation\<close> is called for a \<open>NAVIGATE\<close> response without \<open>await\<close>: its calls
  are made, its result is dropped. Reading \<open>callResp.type\<close> throws a \<open>TypeError\<close> when
  \<open>res\<close> has neither \<open>error\<close> nor \<open>data\<close>.
\<close>

definition executeAppCommand ::
  "'db env \<Rightarrow> jsstring \<Rightarrow> IntlShape \<Rightarrow> AppCommandParser \<Rightarrow> jsstring \<Rightarrow> CommandArgs
     \<Rightarrow> CommandResponse option result \<times> 'db event list" where
  "executeAppCommand e serverUrl intl parser msg args =
     (let composed = composeCommandSubmitCall e parser msg;
          t = [ComposeCommandSubmitCall parser msg]
      in case creq composed of
           None \<Rightarrow> (createErrorMessage (errorMessage composed), t)
         | Some request \<Rightarrow>
             (let res = doAppSubmit e serverUrl request intl;
                  t = t @ [DoAppSubmit serverUrl request]
              in case submit_error res of
                   Some errorResponse \<Rightarrow>
                     (let unknown = formatMessage intl (js ''apps.error.unknown'')
                                      [Literal (js ''Unknown error.'')] []
                      in (createErrorMessage
                            (Some (case response_text errorResponse of
                                     None \<Rightarrow> unknown
                                   | Some s \<Rightarrow> if s \<noteq> [] then s else unknown)), t))
                 | None \<Rightarrow>
                     (case submit_data res of
                        None \<Rightarrow> (Rejected TypeError, t)
                      | Some callResp \<Rightarrow>
                          if response_type callResp = OK (responseTypes e) then
                            (Data (Some empty_object),
                             t @ (case response_text callResp of
                                    None \<Rightarrow> []
                                  | Some s \<Rightarrow>
                                      if s = [] then []
                                      else [PostEphemeralCallResponseForCommandArgs
                                              serverUrl callResp s args]))
                          else if response_type callResp = FORM (responseTypes e) then
                            (Data (Some empty_object),
                             t @ (case response_form callResp of
                                    None \<Rightarrow> []
                                  | Some f \<Rightarrow> [ShowAppForm f (call_context request)]))
                          else if response_type callResp = NAVIGATE (responseTypes e) then
                            (Data (Some empty_object),
                             t @ (case navigate_to_url callResp of
                                    None \<Rightarrow> []
                                  | Some u \<Rightarrow>
                                      if u = [] then []
                                      else snd (handleGotoLocation e serverUrl intl u)))
                          else
                            (createErrorMessage
                               (Some (formatMessage intl unknown_type_id unknown_type_default
                                        [(js ''type'', response_type callResp)])), t))))"

section \<open>Command execution (\<open>executeCommand\<close>, lines 29 to 86)\<close>

text \<open>
  Lines 42 and 43: \<open>channel?.teamId || (await getCurrentTeamId(operator.database))\<close>. The
  current team is read only when the left operand is \<open>undefined\<close> or the empty string.
\<close>

definition commandTeamId :: "'db env \<Rightarrow> 'db \<Rightarrow> jsstring \<Rightarrow> jsstring \<times> 'db event list" where
  "commandTeamId e db channelId' =
     (let channel = getChannelById e db channelId';
          t = [GetChannelById db channelId']
      in case channel of
           None \<Rightarrow> (getCurrentTeamId e db, t @ [GetCurrentTeamId db])
         | Some c \<Rightarrow>
             if teamId c \<noteq> [] then (teamId c, t)
             else (getCurrentTeamId e db, t @ [GetCurrentTeamId db]))"

text \<open>Lines 81 to 83: the trigger id is recorded when the server has an integrations manager.\<close>

definition recordTriggerId ::
  "'db env \<Rightarrow> jsstring \<Rightarrow> CommandResponse option \<Rightarrow> 'db event list" where
  "recordTriggerId e serverUrl data =
     (case data of
        None \<Rightarrow> []
      | Some d \<Rightarrow>
          (case trigger_id d of
             None \<Rightarrow> []
           | Some trigger \<Rightarrow>
               if trigger \<noteq> [] \<and> hasIntegrationsManager e serverUrl
               then [SetTriggerId serverUrl trigger] else []))"

definition executeCommand ::
  "'db env \<Rightarrow> jsstring \<Rightarrow> IntlShape \<Rightarrow> jsstring \<Rightarrow> jsstring \<Rightarrow> jsstring option
     \<Rightarrow> CommandResponse option result \<times> 'db event list" where
  "executeCommand e serverUrl intl message channelId' rootId =
     (case serverDatabases e serverUrl of
        None \<Rightarrow> (Error (ErrorString (serverUrl @ js '' database not found'')), [])
      | Some sd \<Rightarrow>
          (case getClient e serverUrl of
             Inl error \<Rightarrow> (Error (ErrorClient error), [])
           | Inr client \<Rightarrow>
               (let found = commandTeamId e (operator_database (operator sd)) channelId';
                    teamId' = fst found;
                    t = snd found;
                    args = \<lparr>channel_id = channelId', team_id = teamId',
                            root_id = rootId, parent_id = rootId\<rparr>;
                    parser = \<lparr>parser_serverUrl = serverUrl, parser_intl = intl,
                              parser_channelID = channelId', parser_teamID = teamId',
                              parser_rootPostID = rootId\<rparr>
                in if isAppsEnabled e serverUrl \<and> isAppCommand e parser message
                   then (let app = executeAppCommand e serverUrl intl parser message args
                         in (fst app, t @ snd app))
                   else
                     (let msg = normalizeMessage (toLowerCase e) message;
                          t = t @ [ClientExecuteCommand client msg args]
                      in case client_executeCommand e client msg args of
                           Inl error \<Rightarrow> (Error (ErrorClient error), t)
                         | Inr data \<Rightarrow> (Data data, t @ recordTriggerId e serverUrl data)))))"

section \<open>Classes of calls\<close>

fun is_backend_call :: "'db event \<Rightarrow> bool" where
  "is_backend_call (ClientExecuteCommand c m a) = True"
| "is_backend_call ev = False"

fun is_app_call :: "'db event \<Rightarrow> bool" where
  "is_app_call (ComposeCommandSubmitCall p m) = True"
| "is_app_call (DoAppSubmit s r) = True"
| "is_app_call ev = False"

fun is_open_url :: "'db event \<Rightarrow> bool" where
  "is_open_url (TryOpenURL u) = True"
| "is_open_url ev = False"

text \<open>The command context a call carries, for the calls that are given one.\<close>

fun event_args :: "'db event \<Rightarrow> CommandArgs option" where
  "event_args (ClientExecuteCommand c m a) = Some a"
| "event_args (PostEphemeralCallResponseForCommandArgs s r x a) = Some a"
| "event_args ev = None"

section \<open>A concrete world\<close>

text \<open>
  Two registered servers, \<open>a\<close> with database 1 and \<open>b\<close> with database 2, and a third that
  is not registered. Apps are enabled on \<open>b\<close> only. The channel \<open>town\<close> belongs to a team;
  \<open>dm\<close> is a direct-message channel, whose team id is empty. The user \<open>alice\<close> is in
  database 1 only and \<open>bob\<close> in database 2 only.
\<close>

definition server_a :: jsstring where
  "server_a = js ''https://a.example''"

definition server_b :: jsstring where
  "server_b = js ''https://b.example''"

definition server_c :: jsstring where
  "server_c = js ''https://c.example''"

definition demo_intl :: IntlShape where
  "demo_intl = \<lparr>intl_locale = js ''en'', messages = []\<rparr>"

definition demo_link :: "DeepLinkType \<Rightarrow> jsstring \<Rightarrow> jsstring option \<Rightarrow> DeepLinkWithData" where
  "demo_link kind server user =
     \<lparr>link_type = kind,
      link_data = Some \<lparr>link_serverUrl = Some server, teamName = Some (js ''team1''),
                        channelName = Some (js ''town''), postId = Some (js ''post1''),
                        userName = user, channelId = None,
                        plugin_id = Some (js ''plugin1'')\<rparr>\<rparr>"

definition demo_response :: "jsstring \<Rightarrow> AppCallResponse" where
  "demo_response tag =
     \<lparr>response_type = tag, response_text = None, response_form = None,
      navigate_to_url = None\<rparr>"

definition demo_args :: CommandArgs where
  "demo_args =
     \<lparr>channel_id = js ''town'', team_id = js ''team1'', root_id = None, parent_id = None\<rparr>"

definition demo_parser :: "jsstring \<Rightarrow> AppCommandParser" where
  "demo_parser server =
     \<lparr>parser_serverUrl = server, parser_intl = demo_intl, parser_channelID = js ''town'',
      parser_teamID = js ''team1'', parser_rootPostID = None\<rparr>"

text \<open>The links the matcher of this world knows, by location.\<close>

definition demo_links :: "(jsstring \<times> DeepLinkWithData) list" where
  "demo_links =
     [(js ''channel@a'', demo_link Channel server_a None),
      (js ''permalink@b'', demo_link Permalink server_b None),
      (js ''plugin@a'', demo_link Plugin server_a None),
      (js ''group@a'', demo_link GroupMessage server_a None),
      (js ''alice@a'', demo_link DirectMessage server_a (Some (js ''alice''))),
      (js ''bob@b'', demo_link DirectMessage server_b (Some (js ''bob''))),
      (js ''nobody@a'', demo_link DirectMessage server_a None),
      (js ''nobody@c'', demo_link DirectMessage server_c None)]"

definition demo_env :: "nat env" where
  "demo_env =
     \<lparr>serverDatabases =
        (\<lambda>u. if u = server_a then Some \<lparr>database = 1, operator = \<lparr>operator_database = 1\<rparr>\<rparr>
             else if u = server_b
             then Some \<lparr>database = 2, operator = \<lparr>operator_database = 2\<rparr>\<rparr>
             else None),
      searchUrl = (\<lambda>u. if u = server_a \<or> u = server_b then Some u else None),
      getClient = (\<lambda>u. Inr (Client u)),
      client_executeCommand =
        (\<lambda>c m a. Inr (Some \<lparr>trigger_id = Some (js ''trigger1''), response_fields = []\<rparr>)),
      hasIntegrationsManager = (\<lambda>u. True),
      getChannelById =
        (\<lambda>db i. if i = js ''town''
                 then Some \<lparr>channel_model_id = js ''town'', teamId = js ''team1''\<rparr>
                 else if i = js ''dm'' then Some \<lparr>channel_model_id = js ''dm'', teamId = []\<rparr>
                 else None),
      getCurrentTeamId = (\<lambda>db. js ''team2''),
      getConfig = (\<lambda>db. Some \<lparr>SiteURL = Some server_a\<rparr>),
      queryUsersByUsername =
        (\<lambda>db ns. if db = 2 \<and> ns = [js ''bob'']
                  then [\<lparr>user_id = js ''user2'', username = js ''bob''\<rparr>]
                  else if db = 1 \<and> ns = [js ''alice'']
                  then [\<lparr>user_id = js ''user1'', username = js ''alice''\<rparr>]
                  else []),
      getTeammateNameDisplay = (\<lambda>db. js ''username''),
      displayUsername = (\<lambda>u l d. username u),
      isAppsEnabled = (\<lambda>u. u = server_b),
      isAppCommand = (\<lambda>p m. take 4 m = js ''/app''),
      composeCommandSubmitCall =
        (\<lambda>p m. \<lparr>creq = Some \<lparr>call_path = m, call_context = []\<rparr>, errorMessage = None\<rparr>),
      doAppSubmit =
        (\<lambda>s r i. \<lparr>submit_data = Some (demo_response (js ''call'')), submit_error = None\<rparr>),
      responseTypes = \<lparr>OK = js ''ok'', FORM = js ''form'', NAVIGATE = js ''navigate''\<rparr>,
      matchDeepLink = (\<lambda>location server site. map_of demo_links location),
      toLowerCase = ascii_lower\<rparr>"

section \<open>Strings: what trimming and filtering keep\<close>

lemma em_dash_filter: "em_dash \<notin> set (filterEmDashForCommand s)"
  by (induction s) (auto simp: filterEmDashForCommand_def em_dash_def hyphen_def)

lemma filter_id: "em_dash \<notin> set s \<Longrightarrow> filterEmDashForCommand s = s"
  by (induction s) (auto simp: filterEmDashForCommand_def)

lemma set_substring: "set (substring s a b) \<subseteq> set s"
  unfolding substring_def Let_def
  by (meson set_take_subset set_drop_subset subset_trans)

lemma set_trimEnd: "set (trimEnd s) \<subseteq> set s"
  unfolding trimEnd_def using set_dropWhileD[of _ isWhiteSpace "rev s"] by auto

lemma set_trim: "set (trim s) \<subseteq> set s"
  unfolding trim_def trimStart_def
  using set_trimEnd set_dropWhileD[of _ isWhiteSpace s] by blast

lemma trimEnd_split: "s = trimEnd s @ rev (takeWhile isWhiteSpace (rev s))"
proof -
  have "rev (takeWhile isWhiteSpace (rev s) @ dropWhile isWhiteSpace (rev s)) = rev (rev s)"
    by (simp only: takeWhile_dropWhile_id)
  then show ?thesis by (simp only: rev_append rev_rev_ident trimEnd_def)
qed

lemma trimEnd_last: "trimEnd s \<noteq> [] \<Longrightarrow> \<not> isWhiteSpace (last (trimEnd s))"
  unfolding trimEnd_def by (simp add: last_rev hd_dropWhile)

lemma trimEnd_hd:
  assumes "s \<noteq> []" and "\<not> isWhiteSpace (hd s)"
  shows "trimEnd s \<noteq> [] \<and> hd (trimEnd s) = hd s"
proof -
  from assms obtain x xs where s: "s = x # xs" by (cases s) auto
  have "dropWhile isWhiteSpace (rev xs @ [x]) \<noteq> []"
    using assms s by (simp add: dropWhile_append)
  moreover have "last (dropWhile isWhiteSpace (rev xs @ [x])) = x"
    using assms s by (auto simp: dropWhile_append3 dropWhile_append split: if_splits)
  ultimately show ?thesis using s by (simp add: trimEnd_def hd_rev)
qed

lemma trim_split:
  "s = takeWhile isWhiteSpace s @ trim s
         @ rev (takeWhile isWhiteSpace (rev (dropWhile isWhiteSpace s)))"
proof -
  have "s = takeWhile isWhiteSpace s @ dropWhile isWhiteSpace s" by simp
  also have "dropWhile isWhiteSpace s =
      trim s @ rev (takeWhile isWhiteSpace (rev (dropWhile isWhiteSpace s)))"
    using trimEnd_split[of "dropWhile isWhiteSpace s"] by (simp add: trim_def trimStart_def)
  finally show ?thesis by simp
qed

lemma trim_ends:
  assumes "trim s \<noteq> []"
  shows "\<not> isWhiteSpace (hd (trim s)) \<and> \<not> isWhiteSpace (last (trim s))"
proof -
  have ne: "dropWhile isWhiteSpace s \<noteq> []"
  proof
    assume "dropWhile isWhiteSpace s = []"
    then have "trim s = trimEnd []" by (simp only: trim_def trimStart_def)
    with assms show False by (simp add: trimEnd_def)
  qed
  then have h: "\<not> isWhiteSpace (hd (dropWhile isWhiteSpace s))" by (simp add: hd_dropWhile)
  from trimEnd_hd[OF ne h] trimEnd_last[of "dropWhile isWhiteSpace s"] assms h
  show ?thesis by (simp add: trim_def trimStart_def)
qed

section \<open>Which calls each function makes\<close>

lemma goto_calls:
  "list_all (\<lambda>ev. \<not> is_backend_call ev \<and> \<not> is_app_call ev)
     (snd (handleGotoLocation e serverUrl intl location))"
  by (auto simp: handleGotoLocation_def Let_def
      split: option.splits list.splits DeepLinkType.splits if_splits)

lemma app_calls:
  "list_all (\<lambda>ev. \<not> is_backend_call ev)
     (snd (executeAppCommand e serverUrl intl parser msg args))"
  using goto_calls[of e serverUrl intl]
  by (auto simp: executeAppCommand_def Let_def list_all_iff
      split: option.splits if_splits)

lemma teamId_calls:
  "list_all (\<lambda>ev. \<not> is_backend_call ev \<and> \<not> is_app_call ev) (snd (commandTeamId e db c))"
  by (auto simp: commandTeamId_def Let_def split: option.splits)

lemma trigger_calls:
  "list_all (\<lambda>ev. \<not> is_backend_call ev \<and> \<not> is_app_call ev) (recordTriggerId e s d)"
  by (auto simp: recordTriggerId_def split: option.splits)

section \<open>Missing database handle\<close>

text \<open>
  C4. When the registry has no database for the server URL, \<open>executeCommand\<close> and
  \<open>handleGotoLocation\<close> each return \<open>{error}\<close> with a string that contains the server URL,
  and they have made no call at all by then: no network call, no database query, no
  navigation.
\<close>

theorem missing_database_fails_fast:
  assumes "serverDatabases e serverUrl = None"
  shows "(\<exists>text. executeCommand e serverUrl intl message channel rootId
                   = (Error (ErrorString text), []) \<and> sublist serverUrl text)
       \<and> (\<exists>text. handleGotoLocation e serverUrl intl location
                   = (Error (ErrorString text), []) \<and> sublist serverUrl text)"
  using assms by (simp add: executeCommand_def handleGotoLocation_def)

theorem missing_database_fails_fast_witness:
  "serverDatabases demo_env server_c = None
   \<and> (\<exists>text. executeCommand demo_env server_c demo_intl (js ''/away'') (js ''town'') None
               = (Error (ErrorString text), []) \<and> sublist server_c text)
   \<and> (\<exists>text. handleGotoLocation demo_env server_c demo_intl (js ''link'')
               = (Error (ErrorString text), []) \<and> sublist server_c text)"
proof -
  have h: "serverDatabases demo_env server_c = None"
    by (simp add: demo_env_def server_a_def server_b_def server_c_def js_def)
  show ?thesis
    using h missing_database_fails_fast[OF h, of demo_intl "js ''/away''" "js ''town''" None
        "js ''link''"]
    by simp
qed

section \<open>Evaluation rules for the concrete world\<close>

lemmas string_defs = js_def em_dash_def hyphen_def space_def substring_def trimEnd_def trim_def
  trimStart_def isWhiteSpace_def ascii_lower_def commandLength_def commandToken_def
  argumentSegment_def filterEmDashForCommand_def normalizeMessage_def

lemmas demo_defs = demo_env_def server_a_def server_b_def server_c_def demo_intl_def
  demo_link_def demo_links_def demo_response_def demo_args_def demo_parser_def

section \<open>The message sent to the backend\<close>

lemma teamId_not_backend: "ClientExecuteCommand c m a \<notin> set (snd (commandTeamId e db ch))"
  using teamId_calls[of e db ch] by (auto simp: list_all_iff)

lemma trigger_not_backend: "ClientExecuteCommand c m a \<notin> set (recordTriggerId e s d)"
  using trigger_calls[of e s d] by (auto simp: list_all_iff)

lemma app_not_backend:
  "ClientExecuteCommand c m a \<notin> set (snd (executeAppCommand e serverUrl intl parser msg args))"
  using app_calls[of e serverUrl intl parser msg args] by (auto simp: list_all_iff)

lemma backend_call_sent:
  assumes "ClientExecuteCommand c sent a
             \<in> set (snd (executeCommand e serverUrl intl message channel rootId))"
  shows "sent = normalizeMessage (toLowerCase e) message"
  using assms
  by (auto simp: executeCommand_def Let_def teamId_not_backend trigger_not_backend
        app_not_backend
      split: option.splits sum.splits if_splits)

lemma ascii_lower_em_dash: "em_dash \<notin> set s \<Longrightarrow> em_dash \<notin> set (ascii_lower s)"
proof (induction s)
  case Nil
  then show ?case by (simp add: ascii_lower_def)
next
  case (Cons c s)
  have "c + 0x20 \<noteq> em_dash" if "c \<le> 0x5A"
  proof
    assume "c + 0x20 = em_dash"
    then have "c = em_dash - 0x20" by (simp add: algebra_simps)
    with that show False by (simp add: em_dash_def)
  qed
  with Cons show ?case by (auto simp: ascii_lower_def)
qed

text \<open>
  C8. \<open>filterEmDashForCommand\<close> leaves no em-dash: it replaces each one by two hyphens and
  keeps a string without em-dashes as it is. The message \<open>executeCommand\<close> sends to the
  backend is built from the filtered string by \<open>substring\<close>, \<open>trim\<close> or \<open>trimEnd\<close>, and
  \<open>toLowerCase\<close> of the command token; it has no em-dash either, given that the runtime's
  \<open>toLowerCase\<close> does not produce an em-dash from a string that has none (no Unicode case
  mapping yields U+2014).
\<close>

theorem backend_message_has_no_em_dash:
  "em_dash \<notin> set (filterEmDashForCommand message)
   \<and> filterEmDashForCommand (xs @ em_dash # ys)
       = filterEmDashForCommand xs @ js ''--'' @ filterEmDashForCommand ys
   \<and> (em_dash \<notin> set xs \<longrightarrow> filterEmDashForCommand xs = xs)
   \<and> ((\<forall>s. em_dash \<notin> set s \<longrightarrow> em_dash \<notin> set (toLowerCase e s)) \<longrightarrow>
        (\<forall>c sent a.
           ClientExecuteCommand c sent a
             \<in> set (snd (executeCommand e serverUrl intl message channel rootId))
           \<longrightarrow> em_dash \<notin> set sent))"
proof -
  let ?msg = "filterEmDashForCommand message"
  have seg: "em_dash \<notin> set (argumentSegment ?msg)"
    using set_substring[of ?msg] em_dash_filter[of message] by (auto simp: argumentSegment_def)
  have tok: "em_dash \<notin> set (substring ?msg 0 (commandLength ?msg))"
    using set_substring[of ?msg] em_dash_filter[of message] by auto
  have sp: "em_dash \<notin> set (js '' '')" by (simp add: js_def em_dash_def)
  have norm: "em_dash \<notin> set (normalizeMessage (toLowerCase e) message)"
    if "\<forall>s. em_dash \<notin> set s \<longrightarrow> em_dash \<notin> set (toLowerCase e s)"
    using that tok seg sp set_trim[of "argumentSegment ?msg"] set_trimEnd[of "argumentSegment ?msg"]
    by (auto simp: normalizeMessage_def commandToken_def Let_def)
  have rep: "filterEmDashForCommand (xs @ em_dash # ys)
       = filterEmDashForCommand xs @ js ''--'' @ filterEmDashForCommand ys"
    by (simp add: filterEmDashForCommand_def js_def hyphen_def)
  show ?thesis
    using em_dash_filter[of message] rep filter_id[of xs] norm backend_call_sent[of _ _ _ e serverUrl intl message channel rootId]
    by blast
qed

theorem backend_message_has_no_em_dash_witness:
  "ClientExecuteCommand (Client server_a) (js ''/echo a--b'')
       \<lparr>channel_id = js ''town'', team_id = js ''team1'', root_id = None, parent_id = None\<rparr>
     \<in> set (snd (executeCommand demo_env server_a demo_intl
                    (js ''/Echo a'' @ em_dash # js ''b'') (js ''town'') None))
   \<and> em_dash \<notin> set (js ''/echo a--b'')"
proof -
  have low: "\<forall>s. em_dash \<notin> set s \<longrightarrow> em_dash \<notin> set (toLowerCase demo_env s)"
    using ascii_lower_em_dash by (simp add: demo_env_def)
  have run: "ClientExecuteCommand (Client server_a) (js ''/echo a--b'')
       \<lparr>channel_id = js ''town'', team_id = js ''team1'', root_id = None, parent_id = None\<rparr>
     \<in> set (snd (executeCommand demo_env server_a demo_intl
                    (js ''/Echo a'' @ em_dash # js ''b'') (js ''town'') None))"
    by (simp add: executeCommand_def commandTeamId_def recordTriggerId_def Let_def
        demo_defs string_defs)
  from backend_message_has_no_em_dash[of "js ''/Echo a'' @ em_dash # js ''b''" "[]" "[]" demo_env
      server_a demo_intl "js ''town''" None] low run
  show ?thesis by blast
qed


text \<open>
  C1, as amended. Whatever \<open>executeCommand\<close> sends to the backend is the lower-cased
  command token, one space, and a remainder that never ends in white space. For the token
  \<open>/code\<close> the remainder is the argument segment without its trailing white space (leading
  white space is kept); for every other token it is the argument segment without its
  leading and trailing white space.
\<close>

theorem code_argument_loses_trailing_whitespace:
  assumes "ClientExecuteCommand c sent a
             \<in> set (snd (executeCommand e serverUrl intl message channel rootId))"
    and "msg = filterEmDashForCommand message"
    and "cmd = commandToken (toLowerCase e) msg"
  shows "\<exists>rest. sent = cmd @ js '' '' @ rest
           \<and> (rest = [] \<or> \<not> isWhiteSpace (last rest))
           \<and> (if cmd = js ''/code''
              then \<exists>after. argumentSegment msg = rest @ after \<and> list_all isWhiteSpace after
              else (rest = [] \<or> \<not> isWhiteSpace (hd rest))
                   \<and> (\<exists>before after. argumentSegment msg = before @ rest @ after
                         \<and> list_all isWhiteSpace before \<and> list_all isWhiteSpace after))"
proof -
  let ?seg = "argumentSegment msg"
  have sent: "sent = normalizeMessage (toLowerCase e) message"
    using backend_call_sent[OF assms(1)] .
  show ?thesis
  proof (cases "cmd = js ''/code''")
    case True
    have ws: "list_all isWhiteSpace (rev (takeWhile isWhiteSpace (rev ?seg)))"
      by (simp add: list_all_iff) (meson set_takeWhileD)
    have "sent = cmd @ js '' '' @ trimEnd ?seg"
      using sent True assms(2,3) by (simp add: normalizeMessage_def Let_def)
    moreover have "trimEnd ?seg = [] \<or> \<not> isWhiteSpace (last (trimEnd ?seg))"
      using trimEnd_last[of ?seg] by blast
    moreover have "\<exists>after. ?seg = trimEnd ?seg @ after \<and> list_all isWhiteSpace after"
      using trimEnd_split[of ?seg] ws by blast
    ultimately show ?thesis using True by auto
  next
    case False
    have ws1: "list_all isWhiteSpace (takeWhile isWhiteSpace ?seg)"
      by (simp add: list_all_iff) (meson set_takeWhileD)
    have ws2: "list_all isWhiteSpace
                 (rev (takeWhile isWhiteSpace (rev (dropWhile isWhiteSpace ?seg))))"
      by (simp add: list_all_iff) (meson set_takeWhileD)
    have "sent = cmd @ js '' '' @ trim ?seg"
      using sent False assms(2,3) by (simp add: normalizeMessage_def Let_def)
    moreover have "trim ?seg = [] \<or> \<not> isWhiteSpace (last (trim ?seg))"
      and "trim ?seg = [] \<or> \<not> isWhiteSpace (hd (trim ?seg))"
      using trim_ends[of ?seg] by blast+
    moreover have "\<exists>before after. ?seg = before @ trim ?seg @ after
                     \<and> list_all isWhiteSpace before \<and> list_all isWhiteSpace after"
      using trim_split[of ?seg] ws1 ws2 by blast
    ultimately show ?thesis using False by auto
  qed
qed

text \<open>
  C1 as stated fails: \<open>/code arg\<close> followed by two spaces is sent as \<open>/code\<close>, two
  spaces, \<open>arg\<close>. The trailing spaces are gone.
\<close>

theorem code_trailing_whitespace_counterexample:
  "executeCommand demo_env server_a demo_intl (js ''/code arg  '') (js ''town'') None
     = (Data (Some \<lparr>trigger_id = Some (js ''trigger1''), response_fields = []\<rparr>),
        [GetChannelById 1 (js ''town''),
         ClientExecuteCommand (Client server_a) (js ''/code  arg'')
           \<lparr>channel_id = js ''town'', team_id = js ''team1'', root_id = None,
            parent_id = None\<rparr>,
         SetTriggerId server_a (js ''trigger1'')])
   \<and> \<not> suffix (js ''  '') (js ''/code  arg'')"
  by (simp add: executeCommand_def commandTeamId_def recordTriggerId_def Let_def
      demo_defs string_defs suffix_def)

theorem code_argument_loses_trailing_whitespace_witness:
  "ClientExecuteCommand (Client server_a) (js ''/code   x'')
       \<lparr>channel_id = js ''town'', team_id = js ''team1'', root_id = None, parent_id = None\<rparr>
     \<in> set (snd (executeCommand demo_env server_a demo_intl (js ''/CODE  x '') (js ''town'')
                    None))
   \<and> filterEmDashForCommand (js ''/CODE  x '') = js ''/CODE  x ''
   \<and> commandToken (toLowerCase demo_env) (js ''/CODE  x '') = js ''/code''
   \<and> argumentSegment (js ''/CODE  x '') = js ''  x ''
   \<and> (\<exists>rest. js ''/code   x'' = js ''/code'' @ js '' '' @ rest
         \<and> (rest = [] \<or> \<not> isWhiteSpace (last rest))
         \<and> (\<exists>after. js ''  x '' = rest @ after \<and> list_all isWhiteSpace after))"
proof -
  have run: "ClientExecuteCommand (Client server_a) (js ''/code   x'')
       \<lparr>channel_id = js ''town'', team_id = js ''team1'', root_id = None, parent_id = None\<rparr>
     \<in> set (snd (executeCommand demo_env server_a demo_intl (js ''/CODE  x '') (js ''town'')
                    None))"
    by (simp add: executeCommand_def commandTeamId_def recordTriggerId_def Let_def
        demo_defs string_defs)
  have m: "js ''/CODE  x '' = filterEmDashForCommand (js ''/CODE  x '')"
    by (simp add: string_defs)
  have t: "js ''/code'' = commandToken (toLowerCase demo_env) (js ''/CODE  x '')"
    by (simp add: demo_defs string_defs)
  have s: "argumentSegment (js ''/CODE  x '') = js ''  x ''"
    by (simp add: string_defs)
  from code_argument_loses_trailing_whitespace[OF run m t] m t s
  show ?thesis using run by simp
qed

section \<open>The command context\<close>

lemma goto_args: "ev \<in> set (snd (handleGotoLocation e serverUrl intl location)) \<Longrightarrow> event_args ev = None"
  by (auto simp: handleGotoLocation_def Let_def
      split: option.splits list.splits DeepLinkType.splits if_splits)

lemma app_args:
  "ev \<in> set (snd (executeAppCommand e serverUrl intl parser msg args)) \<Longrightarrow>
   event_args ev = Some a \<Longrightarrow> a = args"
  using goto_args[of ev e serverUrl intl]
  by (auto simp: executeAppCommand_def Let_def
      split: option.splits if_splits)

lemma teamId_args: "ev \<in> set (snd (commandTeamId e db ch)) \<Longrightarrow> event_args ev = None"
  by (auto simp: commandTeamId_def Let_def split: option.splits if_splits)

lemma trigger_args: "ev \<in> set (recordTriggerId e s d) \<Longrightarrow> event_args ev = None"
  by (auto simp: recordTriggerId_def split: option.splits if_splits)

lemma command_args:
  assumes "ev \<in> set (snd (executeCommand e serverUrl intl message channel rootId))"
    and "event_args ev = Some a"
    and "serverDatabases e serverUrl = Some sd"
  shows "a = \<lparr>channel_id = channel,
              team_id = fst (commandTeamId e (operator_database (operator sd)) channel),
              root_id = rootId, parent_id = rootId\<rparr>"
  using assms
  by (auto simp: executeCommand_def Let_def
      split: option.splits sum.splits if_splits
      dest: teamId_args trigger_args app_args)

text \<open>
  C7, as amended. Every call of an invocation that carries the command context carries
  this \<open>team_id\<close>: the channel's team id when the channel is found and its team id is not
  empty, and the current team id of the database when the channel is absent or its team id
  is the empty string.
\<close>

theorem team_id_falls_back_on_empty:
  assumes "serverDatabases e serverUrl = Some sd"
    and "db = operator_database (operator sd)"
    and "ev \<in> set (snd (executeCommand e serverUrl intl message channel rootId))"
    and "event_args ev = Some a"
  shows "team_id a =
           (case getChannelById e db channel of
              None \<Rightarrow> getCurrentTeamId e db
            | Some ch \<Rightarrow> if teamId ch \<noteq> [] then teamId ch else getCurrentTeamId e db)"
  using command_args[OF assms(3,4,1)] assms(2)
  by (auto simp: commandTeamId_def Let_def split: option.splits)

text \<open>
  C7 as stated fails: the channel \<open>dm\<close> is found, its team id is empty, and the context
  sent to the backend has the current team \<open>team2\<close>.
\<close>

theorem team_id_counterexample:
  "getChannelById demo_env 1 (js ''dm'') = Some \<lparr>channel_model_id = js ''dm'', teamId = []\<rparr>
   \<and> executeCommand demo_env server_a demo_intl (js ''/away'') (js ''dm'') None
     = (Data (Some \<lparr>trigger_id = Some (js ''trigger1''), response_fields = []\<rparr>),
        [GetChannelById 1 (js ''dm''),
         GetCurrentTeamId 1,
         ClientExecuteCommand (Client server_a) (js ''/away '')
           \<lparr>channel_id = js ''dm'', team_id = js ''team2'', root_id = None,
            parent_id = None\<rparr>,
         SetTriggerId server_a (js ''trigger1'')])
   \<and> js ''team2'' \<noteq> []"
  by (simp add: executeCommand_def commandTeamId_def recordTriggerId_def Let_def
      demo_defs string_defs)


theorem team_id_falls_back_on_empty_witness:
  "ClientExecuteCommand (Client server_a) (js ''/away '')
       \<lparr>channel_id = js ''town'', team_id = js ''team1'', root_id = None, parent_id = None\<rparr>
     \<in> set (snd (executeCommand demo_env server_a demo_intl (js ''/away'') (js ''town'') None))
   \<and> getChannelById demo_env 1 (js ''town'')
       = Some \<lparr>channel_model_id = js ''town'', teamId = js ''team1''\<rparr>
   \<and> team_id \<lparr>channel_id = js ''town'', team_id = js ''team1'', root_id = None,
               parent_id = None\<rparr> = js ''team1''"
proof -
  let ?a = "\<lparr>channel_id = js ''town'', team_id = js ''team1'', root_id = None,
             parent_id = None\<rparr>"
  let ?ev = "ClientExecuteCommand (Client server_a) (js ''/away '') ?a :: nat event"
  have db: "serverDatabases demo_env server_a
              = Some \<lparr>database = 1, operator = \<lparr>operator_database = 1\<rparr>\<rparr>"
    by (simp add: demo_defs)
  have run: "?ev \<in> set (snd (executeCommand demo_env server_a demo_intl (js ''/away'')
                              (js ''town'') None))"
    by (simp add: executeCommand_def commandTeamId_def recordTriggerId_def Let_def
        demo_defs string_defs)
  have ch: "getChannelById demo_env 1 (js ''town'')
              = Some \<lparr>channel_model_id = js ''town'', teamId = js ''team1''\<rparr>"
    by (simp add: demo_defs)
  from team_id_falls_back_on_empty[OF db _ run, of 1 ?a] ch run
  show ?thesis by simp
qed

lemma app_trace_starts:
  "\<exists>rest. snd (executeAppCommand e serverUrl intl parser msg args)
            = ComposeCommandSubmitCall parser msg # rest"
  by (auto simp: executeAppCommand_def Let_def split: option.splits)

text \<open>
  C2. Past the database and client checks, with the parser and the context built at lines
  45 to 54: when apps are enabled for the server and the parser recognises the message,
  the result is that of \<open>executeAppCommand\<close>, the app pipeline is entered and
  \<open>client.executeCommand\<close> is never called; otherwise \<open>client.executeCommand\<close> is called
  and neither \<open>composeCommandSubmitCall\<close> nor \<open>doAppSubmit\<close> is.
\<close>

theorem app_and_backend_paths_are_exclusive:
  assumes "serverDatabases e serverUrl = Some sd"
    and "getClient e serverUrl = Inr client"
    and "team = fst (commandTeamId e (operator_database (operator sd)) channel)"
    and "parser = \<lparr>parser_serverUrl = serverUrl, parser_intl = intl,
                    parser_channelID = channel, parser_teamID = team,
                    parser_rootPostID = rootId\<rparr>"
    and "args = \<lparr>channel_id = channel, team_id = team, root_id = rootId, parent_id = rootId\<rparr>"
    and "run = executeCommand e serverUrl intl message channel rootId"
  shows "(isAppsEnabled e serverUrl \<and> isAppCommand e parser message \<longrightarrow>
            fst run = fst (executeAppCommand e serverUrl intl parser message args)
            \<and> list_all (\<lambda>ev. \<not> is_backend_call ev) (snd run)
            \<and> list_ex is_app_call (snd run))
       \<and> (\<not> (isAppsEnabled e serverUrl \<and> isAppCommand e parser message) \<longrightarrow>
            list_all (\<lambda>ev. \<not> is_app_call ev) (snd run)
            \<and> list_ex is_backend_call (snd run))"
proof (intro conjI impI)
  assume app: "isAppsEnabled e serverUrl \<and> isAppCommand e parser message"
  have run: "run = (fst (executeAppCommand e serverUrl intl parser message args),
                    snd (commandTeamId e (operator_database (operator sd)) channel)
                      @ snd (executeAppCommand e serverUrl intl parser message args))"
    using assms app by (simp add: executeCommand_def Let_def)
  show "fst run = fst (executeAppCommand e serverUrl intl parser message args)"
    using run by simp
  show "list_all (\<lambda>ev. \<not> is_backend_call ev) (snd run)"
    using run teamId_calls[of e "operator_database (operator sd)" channel]
      app_calls[of e serverUrl intl parser message args]
    by (auto simp: list_all_iff)
  show "list_ex is_app_call (snd run)"
    using run app_trace_starts[of e serverUrl intl parser message args]
    by (auto simp: list_ex_iff)
next
  assume napp: "\<not> (isAppsEnabled e serverUrl \<and> isAppCommand e parser message)"
  let ?msg = "normalizeMessage (toLowerCase e) message"
  let ?t = "snd (commandTeamId e (operator_database (operator sd)) channel)
              @ [ClientExecuteCommand client ?msg args]"
  have run: "snd run = ?t \<or> (\<exists>d. snd run = ?t @ recordTriggerId e serverUrl d)"
    using assms napp by (auto simp: executeCommand_def Let_def split: sum.splits)
  show "list_all (\<lambda>ev. \<not> is_app_call ev) (snd run)"
    using run teamId_calls[of e "operator_database (operator sd)" channel]
      trigger_calls[of e serverUrl]
    by (auto simp: list_all_iff)
  show "list_ex is_backend_call (snd run)"
    using run by (auto simp: list_ex_iff)
qed

section \<open>Deep links\<close>

lemmas goto_defs = handleGotoLocation_def deepLinkMatch_def resolveLinkServer_def truthy_def
  truthy_object_def Let_def


text \<open>
  C9. With the database present, a link that does not match, or whose target server is
  not resolved (undefined or empty \<open>linkServerUrl\<close>), makes \<open>handleGotoLocation\<close> call
  \<open>tryOpenURL\<close> exactly once and return \<open>{data: true}\<close>, the value a dispatched link
  returns.
\<close>

theorem fallback_opens_url_once:
  assumes "serverDatabases e serverUrl = Some sd"
    and "db = operator_database (operator sd)"
    and "match = deepLinkMatch e db serverUrl location"
    and "match = None \<or> \<not> truthy (resolveLinkServer e match)"
  shows "handleGotoLocation e serverUrl intl location
           = (Data True, [GetConfig db, TryOpenURL location])
       \<and> length (filter is_open_url (snd (handleGotoLocation e serverUrl intl location))) = 1"
proof -
  have "handleGotoLocation e serverUrl intl location
           = (Data True, [GetConfig db, TryOpenURL location])"
    using assms by (auto simp: handleGotoLocation_def Let_def split: option.splits)
  then show ?thesis by simp
qed


text \<open>
  C3, as amended. With the database present and the target server resolved, a
  DirectMessage link without a user name, a DirectMessage link whose user is not found,
  and a GroupMessage link without a channel id each return \<open>{data: false}\<close>.
\<close>

theorem invalid_payload_returns_false:
  assumes "serverDatabases e serverUrl = Some sd"
    and "db = operator_database (operator sd)"
    and "deepLinkMatch e db serverUrl location = Some m"
    and "link_data m = Some d"
    and "resolveLinkServer e (Some m) = Some l"
    and "l \<noteq> []"
  shows "(link_type m = DirectMessage \<and> \<not> truthy (userName d) \<longrightarrow>
            handleGotoLocation e serverUrl intl location
              = (Data False, [GetConfig db, ErrorUnkownUser]))
       \<and> (link_type m = DirectMessage \<and> userName d = Some name \<and> name \<noteq> []
            \<and> queryUsersByUsername e db [name] = [] \<longrightarrow>
            handleGotoLocation e serverUrl intl location
              = (Data False, [GetConfig db, QueryUsersByUsername db [name], ErrorUnkownUser]))
       \<and> (link_type m = GroupMessage \<and> \<not> truthy (channelId d) \<longrightarrow>
            handleGotoLocation e serverUrl intl location
              = (Data False, [GetConfig db, ErrorBadChannel]))"
  using assms
  by (auto simp: handleGotoLocation_def Let_def truthy_def truthy_object_def
      split: option.splits)

text \<open>
  C10. Once the operator is found at entry, \<open>handleGotoLocation\<close> returns no \<open>{error}\<close> at
  all, so the "database not found" return of the DirectMessage branch is never taken; and
  every user lookup is made in the database of the server URL the function was given,
  whichever server the link names.
\<close>

theorem database_error_unreachable_in_direct_message:
  assumes "serverDatabases e serverUrl = Some sd"
    and "db = operator_database (operator sd)"
  shows "(\<forall>err. fst (handleGotoLocation e serverUrl intl location) \<noteq> Error err)
       \<and> (\<forall>db' names.
            QueryUsersByUsername db' names
              \<in> set (snd (handleGotoLocation e serverUrl intl location))
            \<longrightarrow> db' = db)"
  using assms
  by (auto simp: handleGotoLocation_def Let_def truthy_object_def
      split: option.splits list.splits DeepLinkType.splits if_splits)


lemma demo_db_a:
  "serverDatabases demo_env server_a = Some \<lparr>database = 1, operator = \<lparr>operator_database = 1\<rparr>\<rparr>"
  by (simp add: demo_defs)

theorem fallback_opens_url_once_witness:
  "deepLinkMatch demo_env 1 server_a (js ''nobody@c'')
     = Some (demo_link DirectMessage server_c None)
   \<and> resolveLinkServer demo_env (Some (demo_link DirectMessage server_c None)) = None
   \<and> handleGotoLocation demo_env server_a demo_intl (js ''nobody@c'')
     = (Data True, [GetConfig 1, TryOpenURL (js ''nobody@c'')])
   \<and> length (filter is_open_url
               (snd (handleGotoLocation demo_env server_a demo_intl (js ''nobody@c'')))) = 1
   \<and> fst (handleGotoLocation demo_env server_a demo_intl (js ''plugin@a'')) = Data True"
proof -
  have m: "deepLinkMatch demo_env 1 server_a (js ''nobody@c'')
             = Some (demo_link DirectMessage server_c None)"
    by (simp add: deepLinkMatch_def demo_defs js_def)
  have r: "resolveLinkServer demo_env (Some (demo_link DirectMessage server_c None)) = None"
    by (simp add: resolveLinkServer_def demo_defs js_def)
  have p: "fst (handleGotoLocation demo_env server_a demo_intl (js ''plugin@a'')) = Data True"
    by (simp add: goto_defs demo_defs js_def)
  from fallback_opens_url_once[OF demo_db_a _ m[symmetric], where intl = demo_intl] m r p
  show ?thesis by (simp add: truthy_def)
qed


theorem invalid_payload_returns_false_witness:
  "deepLinkMatch demo_env 1 server_a (js ''nobody@a'')
     = Some (demo_link DirectMessage server_a None)
   \<and> resolveLinkServer demo_env (Some (demo_link DirectMessage server_a None)) = Some server_a
   \<and> handleGotoLocation demo_env server_a demo_intl (js ''nobody@a'')
     = (Data False, [GetConfig 1, ErrorUnkownUser])"
proof -
  let ?m = "demo_link DirectMessage server_a None"
  let ?d = "\<lparr>link_serverUrl = Some server_a, teamName = Some (js ''team1''),
             channelName = Some (js ''town''), postId = Some (js ''post1''),
             userName = None, channelId = None, plugin_id = Some (js ''plugin1'')\<rparr>"
  have m: "deepLinkMatch demo_env 1 server_a (js ''nobody@a'') = Some ?m"
    by (simp add: deepLinkMatch_def demo_defs js_def)
  have d: "link_data ?m = Some ?d" by (simp add: demo_link_def)
  have r: "resolveLinkServer demo_env (Some ?m) = Some server_a"
    by (simp add: resolveLinkServer_def demo_defs js_def)
  have l: "server_a \<noteq> []" by (simp add: server_a_def js_def)
  have k: "link_type ?m = DirectMessage \<and> \<not> truthy (userName ?d)"
    by (simp add: demo_link_def truthy_def)
  from invalid_payload_returns_false[OF demo_db_a _ m d r l, where intl = demo_intl] m r k
  show ?thesis by simp
qed

text \<open>
  C3 as stated fails: a DirectMessage link without a user name whose server \<open>c\<close> is not
  registered is opened as an external URL, and the result is \<open>{data: true}\<close>.
\<close>

theorem unresolved_direct_message_counterexample:
  "deepLinkMatch demo_env 1 server_a (js ''nobody@c'')
     = Some \<lparr>link_type = DirectMessage,
             link_data = Some \<lparr>link_serverUrl = Some server_c, teamName = Some (js ''team1''),
                               channelName = Some (js ''town''), postId = Some (js ''post1''),
                               userName = None, channelId = None,
                               plugin_id = Some (js ''plugin1'')\<rparr>\<rparr>
   \<and> searchUrl demo_env server_c = None
   \<and> handleGotoLocation demo_env server_a demo_intl (js ''nobody@c'')
     = (Data True, [GetConfig 1, TryOpenURL (js ''nobody@c'')])"
  by (simp add: goto_defs demo_defs js_def)


theorem database_error_unreachable_in_direct_message_witness:
  "deepLinkMatch demo_env 1 server_a (js ''bob@b'')
     = Some (demo_link DirectMessage server_b (Some (js ''bob'')))
   \<and> queryUsersByUsername demo_env 2 [js ''bob'']
     = [\<lparr>user_id = js ''user2'', username = js ''bob''\<rparr>]
   \<and> handleGotoLocation demo_env server_a demo_intl (js ''bob@b'')
     = (Data False, [GetConfig 1, QueryUsersByUsername 1 [js ''bob''], ErrorUnkownUser])
   \<and> fst (handleGotoLocation demo_env server_a demo_intl (js ''bob@b''))
     \<noteq> Error (ErrorString (server_a @ js '' database not found''))"
proof -
  have m: "deepLinkMatch demo_env 1 server_a (js ''bob@b'')
     = Some (demo_link DirectMessage server_b (Some (js ''bob'')))"
    by (simp add: deepLinkMatch_def demo_defs js_def)
  have q: "queryUsersByUsername demo_env 2 [js ''bob'']
     = [\<lparr>user_id = js ''user2'', username = js ''bob''\<rparr>]"
    by (simp add: demo_defs)
  have run: "handleGotoLocation demo_env server_a demo_intl (js ''bob@b'')
     = (Data False, [GetConfig 1, QueryUsersByUsername 1 [js ''bob''], ErrorUnkownUser])"
    by (simp add: goto_defs demo_defs js_def)
  from database_error_unreachable_in_direct_message[OF demo_db_a, where db = 1
      and intl = demo_intl and location = "js ''bob@b''"] m q run
  show ?thesis by simp
qed

section \<open>App responses\<close>

lemma sublist_concat_map: "x \<in> set xs \<Longrightarrow> sublist (f x) (concat (map f xs))"
proof -
  assume "x \<in> set xs"
  then obtain as bs where "xs = as @ x # bs" by (auto dest: split_list)
  then have "concat (map f xs) = concat (map f as) @ f x @ concat (map f bs)" by simp
  then show ?thesis unfolding sublist_def by blast
qed

lemma unknown_type_message:
  assumes "\<forall>m. map_of (messages intl) unknown_type_id = Some m \<longrightarrow> Argument (js ''type'') \<in> set m"
  shows "sublist tag (formatMessage intl unknown_type_id unknown_type_default [(js ''type'', tag)])"
proof -
  let ?template = "case map_of (messages intl) unknown_type_id of
                     Some m \<Rightarrow> m | None \<Rightarrow> unknown_type_default"
  have "Argument (js ''type'') \<in> set ?template"
    using assms by (auto simp: unknown_type_default_def split: option.splits)
  from sublist_concat_map[OF this, of "format_part [(js ''type'', tag)]"]
  show ?thesis by (simp add: formatMessage_def)
qed

text \<open>
  C5. For a response whose type is none of \<open>OK\<close>, \<open>FORM\<close> and \<open>NAVIGATE\<close>,
  \<open>executeAppCommand\<close> returns \<open>{error: {message}}\<close> and the message contains the type,
  given that the catalogue's message for \<open>apps.error.responses.unknown_type\<close>, when it has
  one, mentions the \<open>type\<close> argument as the default message does. For every response
  (\<open>res.error\<close> or \<open>res.data\<close> defined) the result is \<open>{data: {}}\<close> or \<open>{error: {message}}\<close>,
  never a rejection.
\<close>

theorem unsupported_response_type_is_error:
  assumes "creq (composeCommandSubmitCall e parser msg) = Some request"
    and "res = doAppSubmit e serverUrl request intl"
    and "run = executeAppCommand e serverUrl intl parser msg args"
  shows "(submit_error res = None \<and> submit_data res = Some callResp
            \<and> response_type callResp \<noteq> OK (responseTypes e)
            \<and> response_type callResp \<noteq> FORM (responseTypes e)
            \<and> response_type callResp \<noteq> NAVIGATE (responseTypes e)
            \<and> (\<forall>m. map_of (messages intl) unknown_type_id = Some m
                    \<longrightarrow> Argument (js ''type'') \<in> set m)
          \<longrightarrow> (\<exists>text. fst run = Error (ErrorMessage (Some text))
                       \<and> sublist (response_type callResp) text))
       \<and> (submit_error res \<noteq> None \<or> submit_data res \<noteq> None
          \<longrightarrow> fst run = Data (Some empty_object) \<or> (\<exists>text. fst run = Error (ErrorMessage (Some text))))"
proof (intro conjI impI)
  assume a: "submit_error res = None \<and> submit_data res = Some callResp
            \<and> response_type callResp \<noteq> OK (responseTypes e)
            \<and> response_type callResp \<noteq> FORM (responseTypes e)
            \<and> response_type callResp \<noteq> NAVIGATE (responseTypes e)
            \<and> (\<forall>m. map_of (messages intl) unknown_type_id = Some m
                    \<longrightarrow> Argument (js ''type'') \<in> set m)"
  then have "fst run = Error (ErrorMessage (Some (formatMessage intl unknown_type_id
                unknown_type_default [(js ''type'', response_type callResp)])))"
    using assms by (simp add: executeAppCommand_def Let_def createErrorMessage_def)
  with a unknown_type_message[of intl "response_type callResp"]
  show "\<exists>text. fst run = Error (ErrorMessage (Some text))
                       \<and> sublist (response_type callResp) text"
    by blast
next
  assume "submit_error res \<noteq> None \<or> submit_data res \<noteq> None"
  then show "fst run = Data (Some empty_object) \<or> (\<exists>text. fst run = Error (ErrorMessage (Some text)))"
    using assms
    by (auto simp: executeAppCommand_def Let_def createErrorMessage_def split: option.splits)
qed

lemmas app_defs = executeAppCommand_def createErrorMessage_def formatMessage_def
  unknown_type_id_def unknown_type_default_def empty_object_def

theorem unsupported_response_type_is_error_witness:
  "fst (executeAppCommand demo_env server_b demo_intl (demo_parser server_b) (js ''/app run'')
          demo_args)
     = Error (ErrorMessage (Some (js ''App response type not supported. Response type: call.'')))
   \<and> sublist (js ''call'') (js ''App response type not supported. Response type: call.'')"
proof -
  let ?request = "\<lparr>call_path = js ''/app run'', call_context = []\<rparr>"
  let ?res = "\<lparr>submit_data = Some (demo_response (js ''call'')), submit_error = None\<rparr>"
  have c: "creq (composeCommandSubmitCall demo_env (demo_parser server_b) (js ''/app run''))
             = Some ?request"
    by (simp add: demo_env_def)
  have r: "?res = doAppSubmit demo_env server_b ?request demo_intl"
    by (simp add: demo_env_def)
  have run: "fst (executeAppCommand demo_env server_b demo_intl (demo_parser server_b)
                    (js ''/app run'') demo_args)
     = Error (ErrorMessage (Some (js ''App response type not supported. Response type: call.'')))"
    by (simp add: app_defs Let_def demo_defs js_def)
  have t: "response_type (demo_response (js ''call'')) = js ''call''
           \<and> response_type (demo_response (js ''call'')) \<noteq> OK (responseTypes demo_env)
           \<and> response_type (demo_response (js ''call'')) \<noteq> FORM (responseTypes demo_env)
           \<and> response_type (demo_response (js ''call'')) \<noteq> NAVIGATE (responseTypes demo_env)"
    by (simp add: demo_defs js_def)
  have cat: "\<forall>m. map_of (messages demo_intl) unknown_type_id = Some m
                 \<longrightarrow> Argument (js ''type'') \<in> set m"
    by (simp add: demo_intl_def)
  from unsupported_response_type_is_error[OF c r refl, where args = demo_args
      and callResp = "demo_response (js ''call'')"] t cat run
  show ?thesis by auto
qed

theorem app_and_backend_paths_are_exclusive_witness:
  "isAppsEnabled demo_env server_b
   \<and> isAppCommand demo_env (demo_parser server_b) (js ''/app run'')
   \<and> executeCommand demo_env server_b demo_intl (js ''/app run'') (js ''town'') None
     = (Error (ErrorMessage
                (Some (js ''App response type not supported. Response type: call.''))),
        [GetChannelById 2 (js ''town''),
         ComposeCommandSubmitCall (demo_parser server_b) (js ''/app run''),
         DoAppSubmit server_b \<lparr>call_path = js ''/app run'', call_context = []\<rparr>])
   \<and> fst (executeCommand demo_env server_b demo_intl (js ''/app run'') (js ''town'') None)
     = fst (executeAppCommand demo_env server_b demo_intl (demo_parser server_b)
              (js ''/app run'') demo_args)
   \<and> \<not> isAppsEnabled demo_env server_a
   \<and> executeCommand demo_env server_a demo_intl (js ''/app run'') (js ''town'') None
     = (Data (Some \<lparr>trigger_id = Some (js ''trigger1''), response_fields = []\<rparr>),
        [GetChannelById 1 (js ''town''),
         ClientExecuteCommand (Client server_a) (js ''/app run'') demo_args,
         SetTriggerId server_a (js ''trigger1'')])"
proof -
  have db: "serverDatabases demo_env server_b
              = Some \<lparr>database = 2, operator = \<lparr>operator_database = 2\<rparr>\<rparr>"
    by (simp add: demo_defs js_def)
  have cl: "getClient demo_env server_b = Inr (Client server_b)"
    by (simp add: demo_env_def)
  have team: "js ''team1'' = fst (commandTeamId demo_env
                 (operator_database (operator \<lparr>database = 2, operator = \<lparr>operator_database = 2\<rparr>\<rparr>))
                 (js ''town''))"
    by (simp add: commandTeamId_def Let_def demo_defs js_def)
  have p: "demo_parser server_b = \<lparr>parser_serverUrl = server_b, parser_intl = demo_intl,
                    parser_channelID = js ''town'', parser_teamID = js ''team1'',
                    parser_rootPostID = None\<rparr>"
    by (simp add: demo_parser_def)
  have a: "demo_args = \<lparr>channel_id = js ''town'', team_id = js ''team1'', root_id = None,
                         parent_id = None\<rparr>"
    by (simp add: demo_args_def)
  have en: "isAppsEnabled demo_env server_b
            \<and> isAppCommand demo_env (demo_parser server_b) (js ''/app run'')"
    by (simp add: demo_defs js_def)
  have nen: "\<not> isAppsEnabled demo_env server_a"
    by (simp add: demo_defs js_def)
  have run_b: "executeCommand demo_env server_b demo_intl (js ''/app run'') (js ''town'') None
     = (Error (ErrorMessage
                (Some (js ''App response type not supported. Response type: call.''))),
        [GetChannelById 2 (js ''town''),
         ComposeCommandSubmitCall (demo_parser server_b) (js ''/app run''),
         DoAppSubmit server_b \<lparr>call_path = js ''/app run'', call_context = []\<rparr>])"
    by (simp add: executeCommand_def commandTeamId_def app_defs Let_def demo_defs js_def)
  have run_a: "executeCommand demo_env server_a demo_intl (js ''/app run'') (js ''town'') None
     = (Data (Some \<lparr>trigger_id = Some (js ''trigger1''), response_fields = []\<rparr>),
        [GetChannelById 1 (js ''town''),
         ClientExecuteCommand (Client server_a) (js ''/app run'') demo_args,
         SetTriggerId server_a (js ''trigger1'')])"
    by (simp add: executeCommand_def commandTeamId_def recordTriggerId_def Let_def
        demo_defs string_defs)
  from app_and_backend_paths_are_exclusive[OF db cl team p a refl, where message = "js ''/app run''"]
    en nen run_b run_a
  show ?thesis by simp
qed

end
